theory Spec2Isabelle
  imports Complex_Main
begin

section \<open>Conventions\<close>

text \<open>
  Python floats and tensor entries are modelled as real numbers: rounding is not part of
  the model. Exceptions of the source are values of \<open>py_error\<close>, returned as
  \<open>Inl\<close> of a sum type.
\<close>

datatype py_error = ZeroDivisionError | IndexError | ValueError | NameError

section \<open>Floating-point rounding\<close>

text \<open>
  A binary floating-point format with \<open>p\<close> significant bits (24 for float32, 53 for
  float64) rounds a real number to the nearest multiple of the unit in the last place of
  its binade, ties going to the even multiple. The exponent range is not modelled, so
  there is no overflow, underflow or subnormal number here.
\<close>

definition round_half_even :: "real \<Rightarrow> int" where
  "round_half_even y =
     (let f = \<lfloor>y\<rfloor>; d = y - of_int f
      in if d < 1 / 2 then f
         else if 1 / 2 < d then f + 1
         else if even f then f else f + 1)"

definition round_float :: "nat \<Rightarrow> real \<Rightarrow> real" where
  "round_float p x =
     (if x = 0 then 0
      else let e = \<lfloor>log 2 \<bar>x\<bar>\<rfloor>;
               u = 2 powr (of_int e - (of_nat p - 1))
           in u * of_int (round_half_even (x / u)))"




section \<open>The Gaussian-mixture model (models/gmm\_model.py)\<close>

text \<open>A tensor of shape \<open>(batch, dim)\<close> is a list of rows.\<close>

type_synonym tensor = "real list list"

text \<open>
  One integrator pass in a fixed direction: from \<open>(x, v)\<close> to the new \<open>(x, v)\<close> and
  the log-Jacobian of each batch element. The integrator lives in the dynamics module,
  which is external to this file, so it is a parameter throughout.
\<close>

type_synonym integrator = "tensor \<Rightarrow> tensor \<Rightarrow> tensor \<times> tensor \<times> real list"

text \<open>
  Modelled from the spec: \<open>allclose\<close> is imported from models/gauge\_model.py, which
  is missing here. The spec's checker compares elementwise, \<open>|x_b - x| < tol\<close>, with a
  configurable tolerance. Tensors of different shapes are not close.
\<close>

definition allclose :: "real \<Rightarrow> tensor \<Rightarrow> tensor \<Rightarrow> bool" where
  "allclose tol a b = list_all2 (list_all2 (\<lambda>p q. \<bar>p - q\<bar> < tol)) a b"

record dynamics_check =
  dc_xb :: tensor
  dc_vb :: tensor
  dc_logdet_f :: "real list"
  dc_logdet_b :: "real list"

text \<open>
  Modelled from the spec: \<open>Dynamics._check_reversibility\<close> is missing here. The spec:
  run the forward integrator step to \<open>(x_f, v_f, logdet_f)\<close>, then the backward
  integrator step on \<open>(x_f, v_f)\<close> to \<open>(x_b, v_b, logdet_b)\<close>. The caller reads the
  entries \<open>xb\<close> and \<open>vb\<close> of the result.
\<close>

definition dynamics_check_reversibility ::
  "integrator \<Rightarrow> integrator \<Rightarrow> tensor \<Rightarrow> tensor \<Rightarrow> dynamics_check" where
  "dynamics_check_reversibility forward backward x_in v_in =
     (case forward x_in v_in of
        (xf, vf, logdet_f) \<Rightarrow>
          (case backward xf vf of
             (xb, vb, logdet_b) \<Rightarrow>
               \<lparr>dc_xb = xb, dc_vb = vb, dc_logdet_f = logdet_f, dc_logdet_b = logdet_b\<rparr>))"

text \<open>
  \<open>GaussianMixtureModel._check_reversibility\<close>. The two random draws \<open>x_in\<close> and
  \<open>v_in\<close> are arguments here.
\<close>

definition gmm_check_reversibility ::
  "real \<Rightarrow> integrator \<Rightarrow> integrator \<Rightarrow> tensor \<Rightarrow> tensor \<Rightarrow> bool \<times> bool" where
  "gmm_check_reversibility tol forward backward x_in v_in =
     (let dynamics_check = dynamics_check_reversibility forward backward x_in v_in;
          xb = dc_xb dynamics_check;
          vb = dc_vb dynamics_check;
          x_allclose = allclose tol x_in xb;
          v_allclose = allclose tol v_in vb
      in (x_allclose, v_allclose))"

text \<open>An integrator that reports other log-Jacobians and is otherwise the same.\<close>

definition with_logdet :: "(tensor \<Rightarrow> tensor \<Rightarrow> real list) \<Rightarrow> integrator \<Rightarrow> integrator" where
  "with_logdet ld f = (\<lambda>x v. case f x v of (x', v', _) \<Rightarrow> (x', v', ld x v))"

text \<open>
  \<open>_create_metric_fn\<close>: \<open>metric_fn(x1, x2) = tf.square(x1 - x2)\<close>, on tensors of the
  same shape.
\<close>

definition metric_fn :: "tensor \<Rightarrow> tensor \<Rightarrow> tensor" where
  "metric_fn x1 x2 = map2 (map2 (\<lambda>a b. (a - b)\<^sup>2)) x1 x2"

text \<open>
  The metric in the words of the spec: the elementwise squared difference summed over
  the dimensions, one number for each batch element.
\<close>

definition metric_summed :: "tensor \<Rightarrow> tensor \<Rightarrow> real list" where
  "metric_summed x1 x2 = map2 (\<lambda>r1 r2. sum_list (map2 (\<lambda>a b. (a - b)\<^sup>2) r1 r2)) x1 x2"

text \<open>
  The part of \<open>build\<close> that runs the dynamics and computes the loss; the parsing of
  the leapfrog diagnostics and the reversibility check, which lie between the two, are
  left out here.
  \<open>apply_transition\<close> and the loss functions of the base class are external; \<open>z\<close>
  is the draw \<open>tf.random_normal(tf.shape(self.x))\<close>. When the auxiliary branch is
  skipped, \<open>z_dynamics\<close> is never assigned and its use in the loss raises
  \<open>NameError\<close>. The field \<open>g_transitions\<close> lists the tensors the transition was
  applied to.
\<close>

record gmm_params =
  aux_weight :: "real option"
  hmc :: bool
  use_gaussian_loss :: bool

record ('d, 'l) gmm_graph =
  g_x_dynamics :: 'd
  g_z_dynamics :: "'d option"
  g_transitions :: "tensor list"
  g_loss_op :: "'l option"

definition gmm_build ::
  "(tensor \<Rightarrow> 'd) \<Rightarrow> ('d \<Rightarrow> 'd \<Rightarrow> 'l) \<Rightarrow> ('d \<Rightarrow> 'd \<Rightarrow> 'l) \<Rightarrow> gmm_params \<Rightarrow> tensor \<Rightarrow> tensor
     \<Rightarrow> py_error + ('d, 'l) gmm_graph" where
  "gmm_build apply_transition calc_loss gaussian_loss params x z =
     (let x_dynamics = apply_transition x;
          z_dynamics = (if (case aux_weight params of None \<Rightarrow> 1 | Some w \<Rightarrow> w) > 0
                        then Some (apply_transition z) else None);
          transitions = (case z_dynamics of None \<Rightarrow> [x] | Some _ \<Rightarrow> [x, z])
      in if \<not> hmc params then
           (case z_dynamics of
              None \<Rightarrow> Inl NameError
            | Some zd \<Rightarrow>
                Inr \<lparr>g_x_dynamics = x_dynamics, g_z_dynamics = z_dynamics,
                     g_transitions = transitions,
                     g_loss_op = Some (if use_gaussian_loss params
                                       then gaussian_loss x_dynamics zd
                                       else calc_loss x_dynamics zd)\<rparr>)
         else Inr \<lparr>g_x_dynamics = x_dynamics, g_z_dynamics = z_dynamics,
                   g_transitions = transitions, g_loss_op = None\<rparr>)"

text \<open>
  An integrator for the examples: it leaves \<open>(x, v)\<close> alone and reports the
  log-Jacobian \<open>1\<close> for every batch element.
\<close>

definition unit_logdet_integrator :: integrator where
  "unit_logdet_integrator = (\<lambda>x v. (x, v, map (\<lambda>_. 1) x))"

section \<open>The acceptance probability\<close>

text \<open>
  The values of a floating-point computation, without rounding: a finite number, an
  infinity, or NaN.
\<close>

datatype fval = Fin real | PInf | NInf | NaN





section \<open>The training step (l2hmc/trainers/pytorch/trainer.py)\<close>

text \<open>
  What the trainer calls but does not define: \<open>to_u1\<close>, the dynamics (a call returns
  the new configuration, the proposed configuration of \<open>mc_states\<close> and the remaining
  metrics, and uses the random generator), the loss function, \<open>draw_x\<close> (which takes
  nothing but the generator), tensor arithmetic on losses, and the two halves of the
  update: \<open>accelerator.backward(loss)\<close>, giving the gradients after
  \<open>optimizer.zero_grad()\<close>, and \<open>optimizer.step()\<close>, giving the new parameters. The
  optimizer's own state is not modelled. \<open>loss_finite\<close> tells whether a loss is a
  finite number.
\<close>

record ('x, 'm, 'l, 'p, 'g, 'r) trainer_env =
  to_u1 :: "'x \<Rightarrow> 'x"
  dynamics :: "'p \<Rightarrow> 'r \<Rightarrow> 'x \<Rightarrow> real \<Rightarrow> ('x \<times> 'x \<times> 'm) \<times> 'r"
  loss_fn :: "'x \<Rightarrow> 'x \<Rightarrow> 'm \<Rightarrow> 'l"
  draw_x :: "'r \<Rightarrow> 'x \<times> 'r"
  loss_scale :: "real \<Rightarrow> 'l \<Rightarrow> 'l"
  loss_add :: "'l \<Rightarrow> 'l \<Rightarrow> 'l"
  loss_div :: "'l \<Rightarrow> real \<Rightarrow> 'l"
  loss_finite :: "'l \<Rightarrow> bool"
  backward :: "'p \<Rightarrow> 'l \<Rightarrow> 'g"
  optimizer_step :: "'p \<Rightarrow> 'g \<Rightarrow> 'p"

text \<open>
  The state a training step changes: the parameters of the dynamics (the weights of the
  networks and the step sizes), the random generator, and the list of configurations the
  dynamics has been run from.
\<close>

record ('x, 'p, 'r) trainer_state =
  ts_params :: 'p
  ts_rng :: 'r
  ts_trajectories :: "'x list"

record ('m, 'l) train_record =
  tr_loss :: 'l
  tr_metrics :: 'm

text \<open>\<open>self.dynamics((x, beta))\<close>.\<close>

definition call_dynamics ::
  "('x, 'm, 'l, 'p, 'g, 'r) trainer_env \<Rightarrow> ('x, 'p, 'r) trainer_state \<Rightarrow> 'x \<Rightarrow> real
     \<Rightarrow> ('x \<times> 'x \<times> 'm) \<times> ('x, 'p, 'r) trainer_state" where
  "call_dynamics env st x beta =
     (case dynamics env (ts_params st) (ts_rng st) x beta of
        (res, rng') \<Rightarrow>
          (res, st\<lparr>ts_rng := rng', ts_trajectories := ts_trajectories st @ [x]\<rparr>))"

text \<open>
  The loss of \<open>train_step\<close>, up to the line before \<open>optimizer.zero_grad()\<close>: the
  loss, the outputs of the main trajectory, and the state.
\<close>

definition train_loss ::
  "('x, 'm, 'l, 'p, 'g, 'r) trainer_env \<Rightarrow> real \<Rightarrow> ('x, 'p, 'r) trainer_state \<Rightarrow> 'x \<times> real
     \<Rightarrow> ('l \<times> 'x \<times> 'm) \<times> ('x, 'p, 'r) trainer_state" where
  "train_loss env aux_w st inputs =
     (case inputs of
        (x_init, beta) \<Rightarrow>
          (case call_dynamics env st (to_u1 env x_init) beta of
             ((x_out, proposed, metrics), st1) \<Rightarrow>
               (let x_prop = to_u1 env proposed;
                    loss = loss_fn env x_init x_prop metrics
                in if aux_w > 0 then
                     (case draw_x env (ts_rng st1) of
                        (drawn, rng2) \<Rightarrow>
                          (let yinit = to_u1 env drawn
                           in case call_dynamics env (st1\<lparr>ts_rng := rng2\<rparr>) yinit beta of
                                ((_, proposed_, metrics_), st2) \<Rightarrow>
                                  (let yprop = to_u1 env proposed_;
                                       aux_loss = loss_scale env aux_w
                                                    (loss_fn env yinit yprop metrics_)
                                   in ((loss_div env (loss_add env loss aux_loss) (1 + aux_w),
                                        x_out, metrics), st2))))
                   else ((loss, x_out, metrics), st1))))"

text \<open>\<open>train_step(inputs)\<close>: the loss, then the update, then the record.\<close>

definition train_step ::
  "('x, 'm, 'l, 'p, 'g, 'r) trainer_env \<Rightarrow> real \<Rightarrow> ('x, 'p, 'r) trainer_state \<Rightarrow> 'x \<times> real
     \<Rightarrow> ('x \<times> ('m, 'l) train_record) \<times> ('x, 'p, 'r) trainer_state" where
  "train_step env aux_w st inputs =
     (case train_loss env aux_w st inputs of
        ((loss, x_out, metrics), st') \<Rightarrow>
          (let grads = backward env (ts_params st') loss;
               st'' = st'\<lparr>ts_params := optimizer_step env (ts_params st') grads\<rparr>
           in ((to_u1 env x_out, \<lparr>tr_loss = loss, tr_metrics = metrics\<rparr>), st'')))"


text \<open>
  An environment for the examples. A configuration is one number and \<open>to_u1\<close> leaves
  it alone; the only parameter is a step size, by which the dynamics moves the
  configuration; the generator is a counter, and \<open>draw_x\<close> returns its value. A loss is
  a number or \<open>None\<close>, standing for NaN, which every operation propagates: the loss
  is NaN when the trajectory did not move, and the inverse squared jump otherwise. A NaN
  loss has NaN gradients and the update with them leaves NaN as the parameter.
\<close>

definition nan_lift ::
  "(real \<Rightarrow> real \<Rightarrow> real) \<Rightarrow> real option \<Rightarrow> real option \<Rightarrow> real option" where
  "nan_lift f a b =
     (case a of
        None \<Rightarrow> None
      | Some u \<Rightarrow> (case b of None \<Rightarrow> None | Some w \<Rightarrow> Some (f u w)))"

definition toy_env ::
  "(real, unit, real option, real option, real option, nat) trainer_env" where
  "toy_env =
     \<lparr>to_u1 = (\<lambda>x. x),
      dynamics = (\<lambda>p r x beta.
                    (let x' = x + (case p of None \<Rightarrow> 0 | Some eps \<Rightarrow> eps)
                     in ((x', x', ()), Suc r))),
      loss_fn = (\<lambda>x_init x_prop m.
                   if x_prop = x_init then None else Some (1 / (x_prop - x_init)\<^sup>2)),
      draw_x = (\<lambda>r. (real r, Suc r)),
      loss_scale = (\<lambda>w l. nan_lift (*) (Some w) l),
      loss_add = nan_lift (+),
      loss_div = (\<lambda>l d. nan_lift (/) l (Some d)),
      loss_finite = (\<lambda>l. l \<noteq> None),
      backward = (\<lambda>p l. nan_lift (\<lambda>u w. - 2 * w) p l),
      optimizer_step = (\<lambda>p g. nan_lift (\<lambda>u w. u - w / 10) p g)\<rparr>"

section \<open>Running the sampler (runners/runner.py)\<close>

text \<open>
  \<open>np.mod(x, m)\<close> on floats, for a finite divisor \<open>m\<close>: the C function \<open>fmod\<close>,
  which is exact and has the sign of \<open>x\<close>, and then, when the remainder is not zero
  and its sign is not that of the divisor, the floating-point addition of the divisor,
  which rounds. A remainder of an infinity or of NaN is NaN. The sign of a zero is not
  modelled. The runner only calls it with \<open>m = 2 * np.pi\<close>.
\<close>

definition c_fmod :: "real \<Rightarrow> real \<Rightarrow> real" where
  "c_fmod x m = x - m * of_int (if 0 \<le> x / m then \<lfloor>x / m\<rfloor> else \<lceil>x / m\<rceil>)"

definition np_mod :: "(real \<Rightarrow> real) \<Rightarrow> fval \<Rightarrow> real \<Rightarrow> fval" where
  "np_mod rnd a m =
     (case a of
        Fin x \<Rightarrow>
          (if m = 0 then NaN
           else let r = c_fmod x m
                in if r \<noteq> 0 then
                     (if (m < 0) \<noteq> (r < 0) then Fin (rnd (r + m)) else Fin r)
                   else Fin 0)
      | PInf \<Rightarrow> NaN
      | NInf \<Rightarrow> NaN
      | NaN \<Rightarrow> NaN)"


text \<open>
  The two exceptions the \<open>try\<close> block of \<open>run\<close> catches. They are raised while
  some call is executing; that call is abandoned and the exception propagates to the
  handler.
\<close>

datatype py_exc = KeyboardInterrupt | SystemExit

text \<open>
  What \<open>self.sess.run(ops, feed_dict)\<close> returns: \<open>outputs[0]\<close> are the new samples
  (the leapfrog trajectory and the accept/reject step run inside this call),
  \<open>outputs[1]\<close> the acceptance probabilities, and the remaining entries lattice
  observables, which are passed through unchanged.
\<close>

record 'o sess_outputs =
  out_x :: "fval list list"
  out_px :: "real list"
  out_obs :: 'o

record 'o out_data =
  od_step :: nat
  od_beta :: real
  od_eps :: real
  od_samples :: "fval list list"
  od_px :: "real list"
  od_obs :: 'o

text \<open>
  The session and the logger are external. \<open>sess_run k x\<close> is the \<open>k\<close>-th call of
  \<open>sess.run\<close>, on samples \<open>x\<close>: it returns the outputs, or is interrupted.
  \<open>logger_call_update l d\<close> is \<open>logger.update(sess, out_data, net_weights, data_str)\<close>
  on a logger in state \<open>l\<close>: it returns the new state, and the exception if it was
  interrupted. \<open>env_two_pi\<close> is the floating-point number \<open>2 * np.pi\<close> in the
  precision of the samples, and \<open>env_round\<close> the rounding of that precision.
\<close>

record ('l, 'o) runner_env =
  sess_run :: "nat \<Rightarrow> fval list list \<Rightarrow> py_exc + 'o sess_outputs"
  logger_call_update :: "'l \<Rightarrow> 'o out_data \<Rightarrow> py_exc option \<times> 'l"
  env_beta :: real
  env_eps :: real
  env_two_pi :: real
  env_round :: "real \<Rightarrow> real"

text \<open>
  \<open>run_step(step, run_steps, inputs, net_weights)\<close>. The formatted \<open>data_str\<close> and
  the leapfrog diagnostics added under \<open>save_lf\<close> are left out.
\<close>

definition run_step ::
  "('l, 'o) runner_env \<Rightarrow> nat \<Rightarrow> fval list list \<Rightarrow> py_exc + 'o out_data" where
  "run_step env step samples_in =
     (case sess_run env step samples_in of
        Inl e \<Rightarrow> Inl e
      | Inr outputs \<Rightarrow>
          Inr \<lparr>od_step = step, od_beta = env_beta env, od_eps = env_eps env,
               od_samples = map (map (\<lambda>v. np_mod (env_round env) v (env_two_pi env)))
                              (out_x outputs),
               od_px = out_px outputs, od_obs = out_obs outputs\<rparr>)"

text \<open>
  The state of \<open>run\<close>: the current samples, the logger (\<open>None\<close> on processes that do
  no file I/O), the logger states \<open>save_run_data\<close> was called on, and the sequence of
  events so far. A step is in progress between its \<open>StepStart\<close> and its
  \<open>StepEnd\<close> or \<open>StepAbort\<close>.
\<close>

datatype event = StepStart nat | StepEnd nat | StepAbort nat | LoggerUpdate nat | SaveRunData

record 'l run_state =
  samples_np :: "fval list list"
  logger :: "'l option"
  saved :: "'l list"
  trace :: "event list"

definition log_event :: "event \<Rightarrow> 'l run_state \<Rightarrow> 'l run_state" where
  "log_event ev st = st\<lparr>trace := trace st @ [ev]\<rparr>"

text \<open>\<open>if self.logger is not None: self.logger.save_run_data(therm_frac=therm_frac)\<close>.\<close>

definition save_if_logger :: "'l run_state \<Rightarrow> 'l run_state" where
  "save_if_logger st =
     (case logger st of
        None \<Rightarrow> st
      | Some l \<Rightarrow> log_event SaveRunData (st\<lparr>saved := saved st @ [l]\<rparr>))"

text \<open>
  The body of \<open>for step in range(run_steps)\<close>, over the remaining steps. The result
  is the exception that left the loop, if any, and the state at that point.
\<close>

fun run_loop ::
  "('l, 'o) runner_env \<Rightarrow> nat list \<Rightarrow> 'l run_state \<Rightarrow> py_exc option \<times> 'l run_state" where
  "run_loop env [] st = (None, st)"
| "run_loop env (step # rest) st =
     (case run_step env step (samples_np st) of
        Inl e \<Rightarrow> (Some e, log_event (StepAbort step) (log_event (StepStart step) st))
      | Inr od \<Rightarrow>
          (let st1 = (log_event (StepEnd step) (log_event (StepStart step) st))
                       \<lparr>samples_np := od_samples od\<rparr>
           in case logger st1 of
                None \<Rightarrow> run_loop env rest st1
              | Some l \<Rightarrow>
                  (case logger_call_update env l od of
                     (None, l') \<Rightarrow>
                       run_loop env rest (log_event (LoggerUpdate step) (st1\<lparr>logger := Some l'\<rparr>))
                   | (Some e, l') \<Rightarrow> (Some e, st1\<lparr>logger := Some l'\<rparr>))))"

text \<open>
  \<open>run(run_steps)\<close> from the initial samples on: the loop, then \<open>save_run_data\<close>;
  the handler of \<open>KeyboardInterrupt\<close> and \<open>SystemExit\<close> calls \<open>save_run_data\<close>
  too and returns normally. An interrupt during \<open>save_run_data\<close> itself is not
  modelled.
\<close>

definition run :: "('l, 'o) runner_env \<Rightarrow> nat \<Rightarrow> 'l run_state \<Rightarrow> 'l run_state" where
  "run env run_steps st =
     (case run_loop env [0..<run_steps] st of
        (None, st') \<Rightarrow> save_if_logger st'
      | (Some e, st') \<Rightarrow> save_if_logger st')"



section \<open>Interrupts during a run\<close>

text \<open>
  Reading a trace: \<open>observe\<close> follows whether a step is in progress and fails
  (\<open>None\<close>) when a step starts inside another, ends without having started, or when
  the logger is updated or the run data saved while a step is in progress.
\<close>

fun observe :: "event \<Rightarrow> bool option \<Rightarrow> bool option" where
  "observe ev None = None"
| "observe (StepStart k) (Some inprog) = (if inprog then None else Some True)"
| "observe (StepEnd k) (Some inprog) = (if inprog then Some False else None)"
| "observe (StepAbort k) (Some inprog) = (if inprog then Some False else None)"
| "observe (LoggerUpdate k) (Some inprog) = (if inprog then None else Some False)"
| "observe SaveRunData (Some inprog) = (if inprog then None else Some False)"

definition saves_outside_steps :: "event list \<Rightarrow> bool" where
  "saves_outside_steps tr = (fold observe tr (Some False) = Some False)"

text \<open>
  An environment for the examples: the session is interrupted during its call number 1
  and otherwise returns the samples it was given; the logger keeps the numbers of the
  steps it was updated with.
\<close>

definition env_int :: "(nat list, unit) runner_env" where
  "env_int = \<lparr>sess_run = (\<lambda>k x. if k = 1 then Inl KeyboardInterrupt
                                 else Inr \<lparr>out_x = x, out_px = [1], out_obs = ()\<rparr>),
              logger_call_update = (\<lambda>l d. (None, l @ [od_step d])),
              env_beta = 5, env_eps = 1 / 10,
              env_two_pi = 884279719003555 / 2 ^ 47, env_round = round_float 53\<rparr>"

definition st_init :: "'l option \<Rightarrow> 'l run_state" where
  "st_init lg = \<lparr>samples_np = [[Fin 0]], logger = lg, saved = [], trace = []\<rparr>"

section \<open>Annealing schedule (utils/annealing\_schedules.py)\<close>

text \<open>
  The only Python exception on this path is the division \<open>1. / beta\<close> of two
  Python floats, which raises \<open>ZeroDivisionError\<close> when the divisor is zero.
\<close>







section \<open>Saving data (utils/file\_io.py)\<close>

text \<open>
  Paths are strings. The file system is a map from paths to stored objects; a path is a
  file (\<open>os.path.isfile\<close>) when it is in the domain of the map. Directories, and
  different strings naming one file, are not modelled. \<open>joblib.dump\<close> and
  \<open>np.save\<close> (re)write the file at the path they are given.
\<close>

datatype 'a stored = Joblib 'a | Npy 'a

type_synonym 'a filesys = "string \<rightharpoonup> 'a stored"

text \<open>\<open>s.split(c)\<close> for a one-character separator: never empty, splits at every \<open>c\<close>.\<close>

fun split_on :: "char \<Rightarrow> string \<Rightarrow> string list" where
  "split_on c [] = [[]]"
| "split_on c (x # xs) =
     (if x = c then [] # split_on c xs
      else (case split_on c xs of
              [] \<Rightarrow> [[x]]
            | w # ws \<Rightarrow> (x # w) # ws))"

text \<open>\<open>sep.join(xs)\<close>.\<close>

fun join_with :: "string \<Rightarrow> string list \<Rightarrow> string" where
  "join_with sep [] = []"
| "join_with sep [x] = x"
| "join_with sep (x # y # ys) = x @ sep @ join_with sep (y # ys)"

definition endswith :: "string \<Rightarrow> string \<Rightarrow> bool" where
  "endswith s suf = (length suf \<le> length s \<and> drop (length s - length suf) s = suf)"

text \<open>\<open>os.path.join(a, b)\<close> of posixpath, for two arguments.\<close>

definition os_path_join :: "string \<Rightarrow> string \<Rightarrow> string" where
  "os_path_join a b =
     (if b \<noteq> [] \<and> hd b = CHR ''/'' then b
      else if a = [] \<or> endswith a ''/'' then a @ b
      else a @ ''/'' @ b)"

text \<open>
  \<open>change_extension(fpath, ext)\<close>: the unpacking \<open>fname, _ = out_file.split('.')\<close>
  raises \<open>ValueError\<close> unless the last path component has exactly one dot.
\<close>

definition change_extension :: "string \<Rightarrow> string \<Rightarrow> py_error + string" where
  "change_extension fpath ext =
     (let tmp = split_on CHR ''/'' fpath;
          out_file = last tmp
      in (case split_on CHR ''.'' out_file of
            [fname, _] \<Rightarrow> Inr (os_path_join (join_with ''/'' (butlast tmp)) (fname @ ''.'' @ ext))
          | _ \<Rightarrow> Inl ValueError))"

text \<open>\<open>savez(obj, fpath, name)\<close>: appends \<open>.z\<close> when missing, then \<open>joblib.dump\<close>.\<close>

definition savez :: "'a filesys \<Rightarrow> 'a \<Rightarrow> string \<Rightarrow> 'a filesys" where
  "savez fs obj fpath =
     (let fpath' = (if \<not> endswith fpath ''.z'' then fpath @ ''.z'' else fpath)
      in fs(fpath' \<mapsto> Joblib obj))"

text \<open>
  \<open>save_data(data, out_file, name)\<close>. When the file exists, the path is rebuilt from
  the first two pieces of \<open>out_file.split('.')\<close>; \<open>tmp[1]\<close> raises
  \<open>IndexError\<close> when the path has no dot.
\<close>

definition rename_existing :: "string \<Rightarrow> py_error + string" where
  "rename_existing out_file =
     (let tmp = split_on CHR ''.'' out_file
      in if length tmp < 2 then Inl IndexError
         else Inr (tmp ! 0 @ ''_1'' @ ''.'' @ tmp ! 1))"

definition save_data :: "'a filesys \<Rightarrow> 'a \<Rightarrow> string \<Rightarrow> py_error + 'a filesys" where
  "save_data fs data out_file =
     (case (if fs out_file \<noteq> None then rename_existing out_file else Inr out_file) of
        Inl e \<Rightarrow> Inl e
      | Inr out_file' \<Rightarrow>
          if endswith out_file' ''.pkl'' then
            (case change_extension out_file' ''z'' of
               Inl e \<Rightarrow> Inl e
             | Inr zfile \<Rightarrow> Inr (savez fs data zfile))
          else if endswith out_file' ''.npy'' then Inr (fs(out_file' \<mapsto> Npy data))
          else Inr (savez fs data out_file'))"

text \<open>
  The path the claim names: \<open>_1\<close> inserted before the extension, the extension being
  what follows the last dot.
\<close>

definition insert_1_before_ext :: "string \<Rightarrow> string" where
  "insert_1_before_ext p =
     (let tmp = split_on CHR ''.'' p
      in join_with ''.'' (butlast tmp) @ ''_1'' @ ''.'' @ last tmp)"

text \<open>
  Shape of a directory prefix of a path: empty, or a nonempty directory name that does not
  itself end in a slash, followed by one slash.
\<close>

definition is_dir_prefix :: "string \<Rightarrow> bool" where
  "is_dir_prefix pre =
     (pre = [] \<or> (2 \<le> length pre \<and> last pre = CHR ''/'' \<and> last (butlast pre) \<noteq> CHR ''/''))"

text \<open>What \<open>save_data\<close> makes of the extension of a renamed file.\<close>

definition saved_ext :: "string \<Rightarrow> string" where
  "saved_ext ext =
     (if ext = ''pkl'' then ''z''
      else if ext = ''npy'' then ''npy''
      else if ext = ''z'' then ''z''
      else ext @ ''.z'')"

section \<open>Properties of floating-point rounding\<close>







lemma binade_unique:
  assumes "2 powr of_int k \<le> x" "x < 2 powr (of_int k + 1)"
  shows "\<lfloor>log 2 x\<rfloor> = k"
proof -
  have pos: "0 < x" using assms(1) by (smt (verit) powr_gt_zero)
  have "log 2 (2 powr of_int k) \<le> log 2 x"
    using assms(1) pos by (simp del: log_powr_cancel)
  then have lo: "of_int k \<le> log 2 x" by simp
  have "log 2 x < log 2 (2 powr (of_int k + 1))"
    using assms(2) pos by (simp del: log_powr_cancel)
  then have hi: "log 2 x < of_int k + 1" by simp
  from lo hi show ?thesis by (simp add: floor_eq_iff)
qed

lemma round_float_pos_eq:
  assumes "0 < x"
  shows "round_float p x
           = 2 powr (of_int \<lfloor>log 2 x\<rfloor> - (of_nat p - 1))
               * of_int (round_half_even (x / 2 powr (of_int \<lfloor>log 2 x\<rfloor> - (of_nat p - 1))))"
  using assms by (simp add: round_float_def Let_def)

lemma round_float_eval:
  assumes "2 powr of_int k \<le> x" "x < 2 powr (of_int k + 1)"
  shows "round_float p x
           = 2 powr (of_int k - (of_nat p - 1))
               * of_int (round_half_even (x / 2 powr (of_int k - (of_nat p - 1))))"
proof -
  have pos: "0 < x" using assms(1) by (smt (verit) powr_gt_zero)
  show ?thesis
    using round_float_pos_eq [OF pos, of p] binade_unique [OF assms] by simp
qed














lemma round_half_even_near:
  assumes "\<bar>y - of_int n\<bar> < 1 / 2"
  shows "round_half_even y = n"
proof (cases "of_int n \<le> y")
  case True
  with assms have "\<lfloor>y\<rfloor> = n" by (simp add: floor_eq_iff abs_if split: if_splits)
  with assms True show ?thesis by (simp add: round_half_even_def Let_def)
next
  case False
  with assms have "\<lfloor>y\<rfloor> = n - 1" by (simp add: floor_eq_iff abs_if split: if_splits)
  with assms False show ?thesis by (auto simp: round_half_even_def Let_def)
qed

lemma round_float_near:
  assumes "2 powr of_int k \<le> x" "x < 2 powr (of_int k + 1)"
    and "2 powr (of_int k - (of_nat p - 1)) = u"
    and "\<bar>x / u - of_int n\<bar> < 1 / 2"
  shows "round_float p x = u * of_int n"
  using round_float_eval [OF assms(1,2), of p] round_half_even_near [OF assms(4)] assms(3)
  by simp

section \<open>Properties of the Gaussian-mixture model\<close>

text \<open>
  C1. For every pair \<open>(x, v)\<close> the checker runs the forward integrator on
  \<open>(x, v)\<close>, the backward integrator on the result, and returns two booleans: whether
  the recovered \<open>x\<close> is close to \<open>x\<close>, and whether the recovered \<open>v\<close> is close
  to \<open>v\<close>. A mismatch is the value \<open>False\<close>; the checker has no exceptional result.
\<close>

theorem gmm_check_reversibility_booleans:
  "gmm_check_reversibility tol fwd bwd x v =
     (allclose tol x (fst (bwd (fst (fwd x v)) (fst (snd (fwd x v))))),
      allclose tol v (fst (snd (bwd (fst (fwd x v)) (fst (snd (fwd x v)))))))"
  by (simp add: gmm_check_reversibility_def dynamics_check_reversibility_def Let_def
      split: prod.splits)

text \<open>
  C2 (amended). The checker reports on the recovered \<open>x\<close> and \<open>v\<close> only: its result
  stays the same when the integrators report any other log-Jacobians.
\<close>

theorem gmm_check_ignores_logdet:
  "gmm_check_reversibility tol (with_logdet ld1 fwd) (with_logdet ld2 bwd) x v
     = gmm_check_reversibility tol fwd bwd x v"
  by (simp add: gmm_check_reversibility_def dynamics_check_reversibility_def with_logdet_def
      Let_def split: prod.splits)

text \<open>
  C2 as stated fails: with integrators whose log-Jacobians are 1 forward and 1 backward,
  so that their sum is 2, both checks of the checker pass.
\<close>

theorem gmm_check_logdet_counterexample:
  "gmm_check_reversibility (1 / 1000) unit_logdet_integrator unit_logdet_integrator [[0]] [[0]]
     = (True, True)
   \<and> dc_logdet_f (dynamics_check_reversibility unit_logdet_integrator unit_logdet_integrator
         [[0]] [[0]]) = [1]
   \<and> dc_logdet_b (dynamics_check_reversibility unit_logdet_integrator unit_logdet_integrator
         [[0]] [[0]]) = [1]
   \<and> \<not> \<bar>(1::real) + 1\<bar> < 1 / 1000"
  by (simp add: gmm_check_reversibility_def dynamics_check_reversibility_def
      unit_logdet_integrator_def allclose_def)

lemma metric_fn_sum: "map sum_list (metric_fn x1 x2) = metric_summed x1 x2"
  by (simp add: metric_fn_def metric_summed_def case_prod_unfold)

text \<open>
  C7 (amended). The metric function of the Gaussian-mixture model is the elementwise
  squared difference: on tensors of one shape it returns a tensor of that shape, whose
  entry \<open>(i, j)\<close> is \<open>(x1[i][j] - x2[i][j])\<^sup>2\<close>, with no wraparound of angles. It
  does not sum; summing its rows gives the summed metric of the spec.
\<close>

theorem metric_fn_elementwise:
  assumes "length x1 = length x2" "i < length x1"
    and "length (x1 ! i) = length (x2 ! i)" "j < length (x1 ! i)"
  shows "length (metric_fn x1 x2) = length x1
         \<and> length (metric_fn x1 x2 ! i) = length (x1 ! i)
         \<and> metric_fn x1 x2 ! i ! j = (x1 ! i ! j - x2 ! i ! j)\<^sup>2
         \<and> map sum_list (metric_fn x1 x2) = metric_summed x1 x2"
  using assms metric_fn_sum [of x1 x2] by (simp add: metric_fn_def)

theorem metric_fn_elementwise_witness:
  "metric_fn [[1, 2]] [[0, 0]] ! 0 ! 1 = (([[1, 2]] ! 0 ! 1) - ([[0, 0]] ! 0 ! 1))\<^sup>2
   \<and> map sum_list (metric_fn [[1, 2]] [[0, 0]]) = metric_summed [[1, 2]] [[0, 0]]"
  using metric_fn_elementwise [of "[[1, 2]]" "[[0, 0]]" 0 1] by simp

text \<open>
  C7 as stated fails: for one sample of dimension two the metric function returns the two
  squared differences 1 and 4, not their sum 5.
\<close>

theorem metric_fn_not_summed_counterexample:
  "metric_fn [[1, 2]] [[0, 0]] = [[1, 4]]
   \<and> metric_summed [[1, 2]] [[0, 0]] = [5]
   \<and> concat (metric_fn [[1, 2]] [[0, 0]]) \<noteq> metric_summed [[1, 2]] [[0, 0]]"
  by (simp add: metric_fn_def metric_summed_def)

section \<open>Properties of the acceptance probability\<close>



section \<open>Properties of the training step\<close>

lemma call_dynamics_params: "ts_params (snd (call_dynamics env st x beta)) = ts_params st"
  by (simp add: call_dynamics_def case_prod_beta)

lemma train_loss_params: "ts_params (snd (train_loss env aux_w st inputs)) = ts_params st"
  by (simp add: train_loss_def call_dynamics_def Let_def case_prod_beta)

lemma toy_env_fields:
  "to_u1 toy_env x = x"
  "dynamics toy_env p r x beta
     = (let x' = x + (case p of None \<Rightarrow> 0 | Some eps \<Rightarrow> eps) in ((x', x', ()), Suc r))"
  "loss_fn toy_env x_init x_prop m
     = (if x_prop = x_init then None else Some (1 / (x_prop - x_init)\<^sup>2))"
  "draw_x toy_env r = (real r, Suc r)"
  "loss_scale toy_env w l = nan_lift (*) (Some w) l"
  "loss_add toy_env l l' = nan_lift (+) l l'"
  "loss_div toy_env l d = nan_lift (/) l (Some d)"
  "loss_finite toy_env l = (l \<noteq> None)"
  "backward toy_env p l = nan_lift (\<lambda>u w. - 2 * w) p l"
  "optimizer_step toy_env p g = nan_lift (\<lambda>u w. u - w / 10) p g"
  by (simp_all add: toy_env_def)

text \<open>
  C4 (amended). Every training step applies the optimizer update that
  \<open>accelerator.backward\<close> and \<open>optimizer.step\<close> compute from the loss of that
  step, whether or not the loss is finite: nothing in the step tests the loss.
\<close>

theorem train_step_always_updates:
  "ts_params (snd (train_step env aux_w st inputs))
     = optimizer_step env (ts_params st)
         (backward env (ts_params st) (tr_loss (snd (fst (train_step env aux_w st inputs)))))"
  using train_loss_params [of env aux_w st inputs]
  by (simp add: train_step_def Let_def case_prod_beta)

text \<open>
  C4 as stated fails: a step whose trajectory does not move has a NaN loss, and the
  update still runs and replaces the step size \<open>0\<close> by NaN.
\<close>

theorem train_step_nan_counterexample:
  "\<not> loss_finite toy_env
       (tr_loss (snd (fst (train_step toy_env 0
          \<lparr>ts_params = Some 0, ts_rng = 0, ts_trajectories = []\<rparr> (1, 5)))))
   \<and> ts_params (snd (train_step toy_env 0
          \<lparr>ts_params = Some 0, ts_rng = 0, ts_trajectories = []\<rparr> (1, 5))) = None
   \<and> ts_params \<lparr>ts_params = Some (0::real), ts_rng = (0::nat), ts_trajectories = ([]::real list)\<rparr>
       = Some 0"
proof -
  have l: "train_loss toy_env 0 \<lparr>ts_params = Some 0, ts_rng = 0, ts_trajectories = []\<rparr> (1, 5)
      = ((None, 1, ()), \<lparr>ts_params = Some 0, ts_rng = Suc 0, ts_trajectories = [1]\<rparr>)"
    by (simp add: train_loss_def call_dynamics_def toy_env_fields)
  have s: "train_step toy_env 0 \<lparr>ts_params = Some 0, ts_rng = 0, ts_trajectories = []\<rparr> (1, 5)
      = ((1, \<lparr>tr_loss = None, tr_metrics = ()\<rparr>),
         \<lparr>ts_params = None, ts_rng = Suc 0, ts_trajectories = [1]\<rparr>)"
    by (simp add: train_step_def l toy_env_fields nan_lift_def)
  show ?thesis unfolding s by (simp add: toy_env_fields)
qed

lemma gmm_build_transitions:
  assumes "gmm_build apply_transition calc_loss gaussian_loss params x z = Inr g"
  shows "g_transitions g
           = (if 0 < (case aux_weight params of None \<Rightarrow> 1 | Some w \<Rightarrow> w) then [x, z] else [x])"
  using assms
  by (auto simp: gmm_build_def Let_def split: if_splits option.splits)

text \<open>
  C6. In \<open>train_step\<close>, a positive \<open>aux_weight\<close> runs the dynamics a second time,
  from \<open>to_u1\<close> of a configuration that \<open>draw_x\<close> makes from the random generator
  alone, and the loss is \<open>(loss + aux_weight * aux_loss) / (1 + aux_weight)\<close>; otherwise
  the dynamics runs once, nothing is drawn, and the loss is the main loss. In the graph
  of the Gaussian-mixture model the second transition, from the noise \<open>z\<close>, is built
  exactly when \<open>aux_weight\<close> (1 when absent) is positive.
\<close>

theorem aux_trajectory_iff_positive_weight:
  fixes env :: "('x, 'm, 'l, 'p, 'g, 'r) trainer_env"
  assumes main: "dynamics env (ts_params st) (ts_rng st) (to_u1 env x_init) beta
                   = ((x_out, proposed, metrics), r1)"
    and noise: "draw_x env r1 = (drawn, r2)"
    and aux: "dynamics env (ts_params st) r2 (to_u1 env drawn) beta
                = ((y_out, y_proposed, y_metrics), r3)"
    and res: "train_step env aux_w st (x_init, beta) = ((x', rec), st')"
    and built: "gmm_build apply_transition calc_loss gaussian_loss params x z = Inr g"
  shows "(0 < aux_w \<longrightarrow>
            ts_trajectories st' = ts_trajectories st @ [to_u1 env x_init, to_u1 env drawn]
            \<and> tr_loss rec
                = loss_div env
                    (loss_add env (loss_fn env x_init (to_u1 env proposed) metrics)
                       (loss_scale env aux_w
                          (loss_fn env (to_u1 env drawn) (to_u1 env y_proposed) y_metrics)))
                    (1 + aux_w))
         \<and> (\<not> 0 < aux_w \<longrightarrow>
            ts_trajectories st' = ts_trajectories st @ [to_u1 env x_init]
            \<and> ts_rng st' = r1
            \<and> tr_loss rec = loss_fn env x_init (to_u1 env proposed) metrics)
         \<and> g_transitions g
             = (if 0 < (case aux_weight params of None \<Rightarrow> 1 | Some w \<Rightarrow> w)
                then [x, z] else [x])"
proof -
  have "0 < aux_w \<longrightarrow>
            ts_trajectories st' = ts_trajectories st @ [to_u1 env x_init, to_u1 env drawn]
            \<and> tr_loss rec
                = loss_div env
                    (loss_add env (loss_fn env x_init (to_u1 env proposed) metrics)
                       (loss_scale env aux_w
                          (loss_fn env (to_u1 env drawn) (to_u1 env y_proposed) y_metrics)))
                    (1 + aux_w)"
    using main noise aux res
    by (auto simp: train_step_def train_loss_def call_dynamics_def Let_def)
  moreover have "\<not> 0 < aux_w \<longrightarrow>
            ts_trajectories st' = ts_trajectories st @ [to_u1 env x_init]
            \<and> ts_rng st' = r1
            \<and> tr_loss rec = loss_fn env x_init (to_u1 env proposed) metrics"
    using main res
    by (auto simp: train_step_def train_loss_def call_dynamics_def Let_def)
  ultimately show ?thesis
    using gmm_build_transitions [OF built] by simp
qed

theorem aux_trajectory_iff_positive_weight_witness:
  "train_step toy_env 1 \<lparr>ts_params = Some 1, ts_rng = 0, ts_trajectories = []\<rparr> (0, 5)
     = ((1, \<lparr>tr_loss = Some 1, tr_metrics = ()\<rparr>),
        \<lparr>ts_params = Some (6 / 5), ts_rng = 3, ts_trajectories = [0, 1]\<rparr>)
   \<and> ts_trajectories \<lparr>ts_params = Some (6 / 5 :: real), ts_rng = (3::nat),
         ts_trajectories = [0, 1 :: real]\<rparr> = [] @ [0, 1]
   \<and> gmm_build (\<lambda>t. t) (\<lambda>a b. ()) (\<lambda>a b. ())
        \<lparr>aux_weight = Some 1, hmc = False, use_gaussian_loss = False\<rparr> [[0]] [[1]]
     = Inr \<lparr>g_x_dynamics = [[0]], g_z_dynamics = Some [[1]], g_transitions = [[[0]], [[1]]],
            g_loss_op = Some ()\<rparr>"
proof -
  let ?st = "\<lparr>ts_params = Some (1::real), ts_rng = (0::nat), ts_trajectories = ([]::real list)\<rparr>"
  have h1: "dynamics toy_env (ts_params ?st) (ts_rng ?st) (to_u1 toy_env 0) 5
      = ((1, 1, ()), Suc 0)"
    by (simp add: toy_env_fields)
  have h2: "draw_x toy_env (Suc 0) = (1, Suc (Suc 0))"
    by (simp add: toy_env_fields)
  have h3: "dynamics toy_env (ts_params ?st) (Suc (Suc 0)) (to_u1 toy_env 1) 5
      = ((2, 2, ()), Suc (Suc (Suc 0)))"
    by (simp add: toy_env_fields)
  have l: "train_loss toy_env 1 ?st (0, 5)
      = ((Some 1, 1, ()),
         \<lparr>ts_params = Some 1, ts_rng = Suc (Suc (Suc 0)), ts_trajectories = [0, 1]\<rparr>)"
    by (simp add: train_loss_def call_dynamics_def toy_env_fields nan_lift_def)
  have h4: "train_step toy_env 1 ?st (0, 5)
      = ((1, \<lparr>tr_loss = Some 1, tr_metrics = ()\<rparr>),
         \<lparr>ts_params = Some (6 / 5), ts_rng = 3, ts_trajectories = [0, 1]\<rparr>)"
    by (simp add: train_step_def l toy_env_fields nan_lift_def numeral_3_eq_3)
  have h5: "gmm_build (\<lambda>t. t) (\<lambda>a b. ()) (\<lambda>a b. ())
        \<lparr>aux_weight = Some 1, hmc = False, use_gaussian_loss = False\<rparr> [[0]] [[1]]
     = Inr \<lparr>g_x_dynamics = [[0]], g_z_dynamics = Some [[1]], g_transitions = [[[0]], [[1]]],
            g_loss_op = Some ()\<rparr>"
    by (simp add: gmm_build_def)
  from aux_trajectory_iff_positive_weight [OF h1 h2 h3 h4 h5] h4 h5
  show ?thesis by simp
qed

section \<open>Properties of the runner\<close>









text \<open>
  The upper end is reached: for a negative number that is small enough, the rounded sum
  of the remainder and the divisor is the divisor itself.
\<close>

lemma np_mod_returns_divisor:
  "np_mod (round_float 53) (Fin (- (1 / 2 ^ 80))) (884279719003555 / 2 ^ 47)
     = Fin (884279719003555 / 2 ^ 47)"
proof -
  let ?m = "884279719003555 / 2 ^ 47 :: real"
  let ?x = "- (1 / 2 ^ 80) :: real"
  have "\<lceil>?x / ?m\<rceil> = 0" by (simp add: ceiling_eq_iff)
  moreover have "\<not> 0 \<le> ?x / ?m" by simp
  ultimately have f: "c_fmod ?x ?m = ?x" by (simp only: c_fmod_def if_False of_int_0 mult_zero_right diff_zero)
  have "round_float 53 (?x + ?m) = (1 / 2 ^ 50) * of_int 7074237752028440"
  proof (rule round_float_near [where k = 2])
    show "(2::real) powr of_int 2 \<le> ?x + ?m" by simp
    show "?x + ?m < 2 powr (of_int 2 + 1)" by simp
    show "(2::real) powr (of_int 2 - (of_nat 53 - 1)) = 1 / 2 ^ 50"
      by (simp add: powr_minus_divide)
    show "\<bar>(?x + ?m) / (1 / 2 ^ 50) - of_int 7074237752028440\<bar> < 1 / 2" by simp
  qed
  then have r: "round_float 53 (?x + ?m) = ?m" by simp
  have "np_mod (round_float 53) (Fin ?x) ?m = Fin (round_float 53 (?x + ?m))"
    unfolding np_mod_def fval.case f Let_def by simp
  then show ?thesis by (simp only: r)
qed




section \<open>Properties of interrupted runs\<close>

lemma trace_log_event [simp]: "trace (log_event ev st) = trace st @ [ev]"
  and logger_log_event [simp]: "logger (log_event ev st) = logger st"
  and saved_log_event [simp]: "saved (log_event ev st) = saved st"
  and samples_log_event [simp]: "samples_np (log_event ev st) = samples_np st"
  by (simp_all add: log_event_def)

lemma run_loop_append:
  "run_loop env (a @ b) st =
     (case run_loop env a st of
        (None, st1) \<Rightarrow> run_loop env b st1
      | (Some e, st1) \<Rightarrow> (Some e, st1))"
proof (induction a arbitrary: st)
  case Nil
  then show ?case by simp
next
  case (Cons k a)
  show ?case
    by (simp add: Cons.IH Let_def split: sum.splits option.splits prod.splits)
qed

lemma run_loop_saved: "saved (snd (run_loop env steps st)) = saved st"
proof (induction steps arbitrary: st)
  case Nil
  then show ?case by simp
next
  case (Cons k steps)
  show ?case
    by (simp add: Cons.IH Let_def split: sum.splits option.splits prod.splits)
qed

lemma run_loop_logger:
  "logger st = Some l \<Longrightarrow> \<exists>l'. logger (snd (run_loop env steps st)) = Some l'"
proof (induction steps arbitrary: st l)
  case Nil
  then show ?case by simp
next
  case (Cons k steps)
  show ?case
  proof (cases "run_step env k (samples_np st)")
    case (Inl e)
    with Cons.prems show ?thesis by simp
  next
    case (Inr od)
    obtain ex l' where u: "logger_call_update env l od = (ex, l')"
      by (cases "logger_call_update env l od")
    show ?thesis
    proof (cases ex)
      case None
      with Inr u Cons.prems Cons.IH [of _ l'] show ?thesis by (simp add: Let_def)
    next
      case (Some e)
      with Inr u Cons.prems show ?thesis by (simp add: Let_def)
    qed
  qed
qed

lemma run_loop_observe:
  assumes "fold observe (trace st) (Some False) = Some False"
  shows "fold observe (trace (snd (run_loop env steps st))) (Some False) = Some False"
  using assms
proof (induction steps arbitrary: st)
  case Nil
  then show ?case by simp
next
  case (Cons k steps)
  show ?case
  proof (cases "run_step env k (samples_np st)")
    case (Inl e)
    with Cons.prems show ?thesis by simp
  next
    case (Inr od)
    show ?thesis
    proof (cases "logger st")
      case None
      with Inr Cons.prems show ?thesis
        by (simp add: Let_def Cons.IH)
    next
      case (Some l)
      obtain ex l' where u: "logger_call_update env l od = (ex, l')"
        by (cases "logger_call_update env l od")
      show ?thesis
      proof (cases ex)
        case None
        with Inr u Some Cons.prems show ?thesis by (simp add: Let_def Cons.IH)
      next
        case (Some e)
        with Inr u \<open>logger st = Some l\<close> Cons.prems show ?thesis by (simp add: Let_def)
      qed
    qed
  qed
qed

lemma upt3: "[0..<3] = [0, 1, 2]"
  by code_simp

lemma run_step_env_int_0:
  "run_step env_int 0 [[Fin 0]]
     = Inr \<lparr>od_step = 0, od_beta = 5, od_eps = 1 / 10, od_samples = [[Fin 0]],
            od_px = [1], od_obs = ()\<rparr>"
  by (simp add: run_step_def env_int_def np_mod_def c_fmod_def)

lemma run_step_env_int_1: "run_step env_int (Suc 0) x = Inl KeyboardInterrupt"
  by (simp add: run_step_def env_int_def)

lemma logger_env_int: "logger_call_update env_int l d = (None, l @ [od_step d])"
  by (simp add: env_int_def)

text \<open>
  C8 (amended). With a logger attached, when the first \<open>k\<close> steps complete and the
  session is interrupted during step \<open>k\<close>, the exception leaves \<open>run_step\<close>, the
  handler calls \<open>save_run_data\<close> once, on the logger as the \<open>k\<close> completed steps
  left it, and the samples of the last completed step are kept. In the trace the save
  follows the abandoned step, and no save or logger update falls inside a step.
\<close>

theorem run_interrupted_saves_completed:
  assumes lg: "logger st = Some l0"
    and tr: "saves_outside_steps (trace st)"
    and k: "k < n"
    and completed: "run_loop env [0..<k] st = (None, stk)"
    and interrupted: "run_step env k (samples_np stk) = Inl e"
  shows "\<exists>lk. logger stk = Some lk
           \<and> saved (run env n st) = saved st @ [lk]
           \<and> trace (run env n st) = trace stk @ [StepStart k, StepAbort k, SaveRunData]
           \<and> samples_np (run env n st) = samples_np stk
           \<and> saves_outside_steps (trace (run env n st))"
proof -
  from run_loop_logger [OF lg, of env "[0..<k]"] completed
  obtain lk where lk: "logger stk = Some lk" by auto
  from run_loop_saved [of env "[0..<k]" st] completed
  have sv: "saved stk = saved st" by simp
  from run_loop_observe [of st env "[0..<k]"] tr completed
  have ob: "fold observe (trace stk) (Some False) = Some False"
    by (simp add: saves_outside_steps_def)
  have "[0..<k + (n - k)] = [0..<k] @ [k..<k + (n - k)]"
    by (rule upt_add_eq_append) simp
  moreover have "[k..<k + (n - k)] = k # [Suc k..<n]"
    using k by (simp add: upt_conv_Cons)
  ultimately have "[0..<n] = [0..<k] @ k # [Suc k..<n]"
    using k by simp
  then have "run_loop env [0..<n] st
      = (Some e, log_event (StepAbort k) (log_event (StepStart k) stk))"
    using completed interrupted by (simp add: run_loop_append)
  then have r: "run env n st
      = save_if_logger (log_event (StepAbort k) (log_event (StepStart k) stk))"
    by (simp add: run_def)
  have "saved (run env n st) = saved st @ [lk]"
    unfolding r using lk sv by (simp add: save_if_logger_def)
  moreover have t: "trace (run env n st) = trace stk @ [StepStart k, StepAbort k, SaveRunData]"
    unfolding r using lk by (simp add: save_if_logger_def)
  moreover have "samples_np (run env n st) = samples_np stk"
    unfolding r using lk by (simp add: save_if_logger_def)
  moreover have "saves_outside_steps (trace (run env n st))"
    unfolding t saves_outside_steps_def using ob by simp
  ultimately show ?thesis using lk by simp
qed

theorem run_interrupted_saves_completed_witness:
  "saved (run env_int 3 (st_init (Some []))) = [[0]]
   \<and> trace (run env_int 3 (st_init (Some [])))
       = [StepStart 0, StepEnd 0, LoggerUpdate 0, StepStart 1, StepAbort 1, SaveRunData]
   \<and> samples_np (run env_int 3 (st_init (Some []))) = [[Fin 0]]
   \<and> saves_outside_steps (trace (run env_int 3 (st_init (Some []))))"
proof -
  let ?stk = "\<lparr>samples_np = [[Fin 0]], logger = Some [0::nat], saved = [],
               trace = [StepStart 0, StepEnd 0, LoggerUpdate 0]\<rparr>"
  have h1: "logger (st_init (Some ([] :: nat list))) = Some []"
    by (simp add: st_init_def)
  have h2: "saves_outside_steps (trace (st_init (Some ([] :: nat list))))"
    by (simp add: st_init_def saves_outside_steps_def)
  have h3: "(1::nat) < 3" by simp
  have "run_loop env_int [0] (st_init (Some [])) = (None, ?stk)"
    by (simp add: run_step_env_int_0 logger_env_int st_init_def log_event_def Let_def)
  then have h4: "run_loop env_int [0..<1] (st_init (Some [])) = (None, ?stk)"
    by simp
  have h5: "run_step env_int 1 (samples_np ?stk) = Inl KeyboardInterrupt"
    using run_step_env_int_1 by simp
  from run_interrupted_saves_completed [OF h1 h2 h3 h4 h5]
  show ?thesis by (simp add: st_init_def saves_outside_steps_def)
qed

text \<open>
  C8 as stated fails without a logger, which is how the runner is built on every process
  but the one doing file I/O: the same interrupt during step 1 ends the run with nothing
  saved.
\<close>

theorem run_without_logger_counterexample:
  "saved (run env_int 3 (st_init (None :: nat list option))) = []
   \<and> trace (run env_int 3 (st_init (None :: nat list option)))
       = [StepStart 0, StepEnd 0, StepStart 1, StepAbort 1]"
proof -
  have "run_loop env_int [0, 1, 2] (st_init (None :: nat list option))
      = (Some KeyboardInterrupt,
         \<lparr>samples_np = [[Fin 0]], logger = None, saved = [],
          trace = [StepStart 0, StepEnd 0, StepStart 1, StepAbort 1]\<rparr>)"
    by (simp add: run_step_env_int_0 run_step_env_int_1 st_init_def log_event_def Let_def)
  then show ?thesis
    by (simp add: run_def upt3 save_if_logger_def)
qed

section \<open>Properties of the annealing schedule\<close>























section \<open>Properties of saving data\<close>

lemma split_on_nonempty: "split_on c s \<noteq> []"
  by (induction s) (auto split: list.splits)

lemma split_on_no_sep: "c \<notin> set s \<Longrightarrow> split_on c s = [s]"
  by (induction s) auto

lemma split_on_append_sep: "split_on c (a @ c # b) = split_on c a @ split_on c b"
proof (induction a)
  case Nil
  then show ?case by simp
next
  case (Cons x a)
  then show ?case
    using split_on_nonempty [of c a] by (cases "split_on c a") auto
qed

lemma split_on_two:
  assumes "c \<notin> set a" "c \<notin> set b"
  shows "split_on c (a @ c # b) = [a, b]"
  using assms by (simp add: split_on_append_sep split_on_no_sep)

lemma join_split_on: "join_with [c] (split_on c s) = s"
proof (induction s)
  case Nil
  then show ?case by simp
next
  case (Cons x s)
  show ?case
  proof (cases "x = c")
    case True
    then show ?thesis
      using Cons split_on_nonempty [of c s] by (cases "split_on c s") auto
  next
    case False
    then show ?thesis
      using Cons split_on_nonempty [of c s]
      by (cases "split_on c s"; cases "tl (split_on c s)") auto
  qed
qed

lemma endswith_iff: "endswith s suf \<longleftrightarrow> (\<exists>p. s = p @ suf)"
proof
  assume "endswith s suf"
  then have "s = take (length s - length suf) s @ suf"
    by (metis append_take_drop_id endswith_def)
  then show "\<exists>p. s = p @ suf" ..
next
  assume "\<exists>p. s = p @ suf"
  then show "endswith s suf" by (auto simp: endswith_def)
qed

lemma last_sep_unique:
  assumes "c \<notin> set y" "c \<notin> set y'" "x @ c # y = x' @ c # y'"
  shows "x = x' \<and> y = y'"
  using assms by (auto simp: append_eq_append_conv2 Cons_eq_append_conv append_eq_Cons_conv)

lemma endswith_ext:
  assumes "CHR ''.'' \<notin> set ext" "CHR ''.'' \<notin> set e"
  shows "endswith (a @ CHR ''.'' # ext) (CHR ''.'' # e) \<longleftrightarrow> ext = e"
  using assms last_sep_unique [of "CHR ''.''" ext e a] by (auto simp: endswith_iff)


lemma change_extension_renamed:
  assumes pre: "is_dir_prefix pre"
    and nodot: "CHR ''.'' \<notin> set pre" "CHR ''.'' \<notin> set base"
    and noslash: "CHR ''/'' \<notin> set base"
  shows "change_extension (pre @ base @ ''_1.pkl'') ''z'' = Inr (pre @ base @ ''_1.z'')"
proof (cases "pre = []")
  case True
  have "CHR ''/'' \<notin> set (base @ ''_1.pkl'')" using noslash by simp
  then have sp: "split_on CHR ''/'' (base @ ''_1.pkl'') = [base @ ''_1.pkl'']"
    by (rule split_on_no_sep)
  have "CHR ''.'' \<notin> set (base @ ''_1'')" using nodot by simp
  then have "split_on CHR ''.'' ((base @ ''_1'') @ CHR ''.'' # ''pkl'') = [base @ ''_1'', ''pkl'']"
    by (intro split_on_two) simp_all
  then have dots: "split_on CHR ''.'' (base @ ''_1.pkl'') = [base @ ''_1'', ''pkl'']" by simp
  have hd: "base @ ''_1.z'' \<noteq> [] \<and> hd (base @ ''_1.z'') \<noteq> CHR ''/''"
    using noslash by (cases base) auto
  show ?thesis
    using True sp dots hd by (simp add: change_extension_def os_path_join_def)
next
  case False
  define dir where "dir = butlast pre"
  from False pre have q: "2 \<le> length pre" "last pre = CHR ''/''" "last dir \<noteq> CHR ''/''"
    unfolding is_dir_prefix_def dir_def by auto
  from False q(2) have p1: "pre = dir @ ''/''"
    unfolding dir_def using append_butlast_last_id [of pre] by simp
  from q(1) have p2: "dir \<noteq> []"
    unfolding dir_def by (cases pre; cases "tl pre") auto
  note p = p1 p2 q(3)
  have "CHR ''/'' \<notin> set (base @ ''_1.pkl'')" using noslash by simp
  then have "split_on CHR ''/'' (base @ ''_1.pkl'') = [base @ ''_1.pkl'']"
    by (rule split_on_no_sep)
  then have sp: "split_on CHR ''/'' (pre @ base @ ''_1.pkl'')
      = split_on CHR ''/'' dir @ [base @ ''_1.pkl'']"
    using split_on_append_sep [of "CHR ''/''" dir "base @ ''_1.pkl''"] p(1) by simp
  have "CHR ''.'' \<notin> set (base @ ''_1'')" using nodot by simp
  then have "split_on CHR ''.'' ((base @ ''_1'') @ CHR ''.'' # ''pkl'') = [base @ ''_1'', ''pkl'']"
    by (intro split_on_two) simp_all
  then have dots: "split_on CHR ''.'' (base @ ''_1.pkl'') = [base @ ''_1'', ''pkl'']" by simp
  have hd: "base @ ''_1.z'' \<noteq> [] \<and> hd (base @ ''_1.z'') \<noteq> CHR ''/''"
    using noslash by (cases base) auto
  have j: "join_with ''/'' (split_on CHR ''/'' dir) = dir"
    using join_split_on [of "CHR ''/''" dir] by simp
  have ne: "\<not> endswith dir ''/''"
    using p(2,3) by (auto simp: endswith_iff)
  show ?thesis
    using sp dots hd j ne p(1,2) by (simp add: change_extension_def os_path_join_def)
qed

lemma rename_existing_one_dot:
  assumes "CHR ''.'' \<notin> set pre" "CHR ''.'' \<notin> set base" "CHR ''.'' \<notin> set ext"
  shows "rename_existing (pre @ base @ ''.'' @ ext) = Inr (pre @ base @ ''_1.'' @ ext)"
proof -
  have "CHR ''.'' \<notin> set (pre @ base)" using assms by simp
  then have "split_on CHR ''.'' ((pre @ base) @ CHR ''.'' # ext) = [pre @ base, ext]"
    using assms(3) by (intro split_on_two)
  then show ?thesis by (simp add: rename_existing_def)
qed

lemma endswith_renamed:
  assumes "CHR ''.'' \<notin> set ext" "CHR ''.'' \<notin> set e"
  shows "endswith (pre @ base @ ''_1.'' @ ext) (CHR ''.'' # e) \<longleftrightarrow> ext = e"
  using endswith_ext [OF assms, of "pre @ base @ ''_1''"] by simp

text \<open>
  C10 (amended). For a path \<open>pre @ base @ ''.'' @ ext\<close> with a single dot, in its file
  name, that names an existing file, \<open>save_data\<close> raises nothing, writes the data
  to \<open>pre @ base @ ''_1.'' @ saved_ext ext\<close> and changes no other path; in
  particular the existing file keeps its contents. The extension written is \<open>z\<close>
  for \<open>pkl\<close> and \<open>z\<close>, \<open>npy\<close> for \<open>npy\<close>, and \<open>ext.z\<close> otherwise.
  Whatever was stored at the target path before is replaced.
\<close>

theorem save_data_existing_file:
  assumes ex: "fs out_file = Some old"
    and shape: "out_file = pre @ base @ ''.'' @ ext"
    and pre: "is_dir_prefix pre"
    and nodot: "CHR ''.'' \<notin> set pre" "CHR ''.'' \<notin> set base" "CHR ''.'' \<notin> set ext"
    and noslash: "CHR ''/'' \<notin> set base"
  shows "save_data fs data out_file =
           Inr (fs(pre @ base @ ''_1.'' @ saved_ext ext
                     \<mapsto> (if ext = ''npy'' then Npy data else Joblib data)))
         \<and> pre @ base @ ''_1.'' @ saved_ext ext \<noteq> out_file"
proof -
  have ren: "rename_existing out_file = Inr (pre @ base @ ''_1.'' @ ext)"
    unfolding shape by (rule rename_existing_one_dot [OF nodot])
  have pkl: "endswith (pre @ base @ ''_1.'' @ ext) ''.pkl'' \<longleftrightarrow> ext = ''pkl''"
    using endswith_renamed [OF nodot(3), of "''pkl''" pre base] by simp
  have npy: "endswith (pre @ base @ ''_1.'' @ ext) ''.npy'' \<longleftrightarrow> ext = ''npy''"
    using endswith_renamed [OF nodot(3), of "''npy''" pre base] by simp
  have z: "endswith (pre @ base @ ''_1.'' @ ext) ''.z'' \<longleftrightarrow> ext = ''z''"
    using endswith_renamed [OF nodot(3), of "''z''" pre base] by simp
  have zz: "endswith (pre @ base @ ''_1.z'') ''.z''"
    by (simp add: endswith_iff)
  have ce: "change_extension (pre @ base @ ''_1.pkl'') ''z'' = Inr (pre @ base @ ''_1.z'')"
    by (rule change_extension_renamed [OF pre nodot(1,2) noslash])
  have neq: "pre @ base @ ''_1.'' @ saved_ext ext \<noteq> out_file"
    unfolding shape by simp
  consider "ext = ''pkl''" | "ext = ''npy''" | "ext = ''z''"
    | "ext \<noteq> ''pkl''" "ext \<noteq> ''npy''" "ext \<noteq> ''z''" by blast
  then have "save_data fs data out_file =
           Inr (fs(pre @ base @ ''_1.'' @ saved_ext ext
                     \<mapsto> (if ext = ''npy'' then Npy data else Joblib data)))"
  proof cases
    case 1
    then show ?thesis
      using ex ren pkl ce zz by (simp add: save_data_def savez_def saved_ext_def)
  next
    case 2
    then show ?thesis
      using ex ren pkl npy by (simp add: save_data_def saved_ext_def)
  next
    case 3
    then show ?thesis
      using ex ren pkl npy z by (simp add: save_data_def savez_def saved_ext_def)
  next
    case 4
    then show ?thesis
      using ex ren pkl npy z by (simp add: save_data_def savez_def saved_ext_def)
  qed
  with neq show ?thesis by simp
qed

theorem save_data_existing_file_witness:
  "save_data [''obs/plaqs.pkl'' \<mapsto> Joblib (0::nat)] 1 ''obs/plaqs.pkl''
     = Inr [''obs/plaqs.pkl'' \<mapsto> Joblib 0, ''obs/plaqs_1.z'' \<mapsto> Joblib 1]"
proof -
  have h1: "[''obs/plaqs.pkl'' \<mapsto> Joblib (0::nat)] ''obs/plaqs.pkl'' = Some (Joblib 0)"
    by simp
  have h2: "''obs/plaqs.pkl'' = ''obs/'' @ ''plaqs'' @ ''.'' @ ''pkl''" by simp
  have h3: "is_dir_prefix ''obs/''" by (simp add: is_dir_prefix_def)
  have h4: "CHR ''.'' \<notin> set ''obs/''" "CHR ''.'' \<notin> set ''plaqs''" "CHR ''.'' \<notin> set ''pkl''"
    "CHR ''/'' \<notin> set ''plaqs''" by simp_all
  have e: "''obs/'' @ ''plaqs'' @ ''_1.'' @ saved_ext ''pkl'' = ''obs/plaqs_1.z''"
    by (simp add: saved_ext_def)
  note inst = save_data_existing_file [of "[''obs/plaqs.pkl'' \<mapsto> Joblib (0::nat)]"
      "''obs/plaqs.pkl''" "Joblib 0" "''obs/''" "''plaqs''" "''pkl''" 1]
  from inst [OF h1 h2 h3 h4]
  have "save_data [''obs/plaqs.pkl'' \<mapsto> Joblib (0::nat)] 1 ''obs/plaqs.pkl''
     = Inr ([''obs/plaqs.pkl'' \<mapsto> Joblib 0](''obs/'' @ ''plaqs'' @ ''_1.'' @ saved_ext ''pkl''
               \<mapsto> (if ''pkl'' = ''npy'' then Npy 1 else Joblib 1)))"
    by (rule conjunct1)
  then show ?thesis unfolding e by simp
qed

text \<open>
  C10 as stated fails. An existing \<open>obs/plaqs.pkl\<close> sends the data to
  \<open>obs/plaqs_1.z\<close>: nothing is written at \<open>obs/plaqs_1.pkl\<close>, the path with
  \<open>_1\<close> before the extension. And a file saved earlier at the renamed path is
  overwritten: with \<open>a.npy\<close> and \<open>a_1.npy\<close> both present, saving to
  \<open>a.npy\<close> replaces the contents of \<open>a_1.npy\<close>.
\<close>

theorem save_data_sibling_counterexample:
  "save_data [''obs/plaqs.pkl'' \<mapsto> Joblib (0::nat)] 1 ''obs/plaqs.pkl''
     = Inr [''obs/plaqs.pkl'' \<mapsto> Joblib 0, ''obs/plaqs_1.z'' \<mapsto> Joblib 1]
   \<and> insert_1_before_ext ''obs/plaqs.pkl'' = ''obs/plaqs_1.pkl''
   \<and> [''obs/plaqs.pkl'' \<mapsto> Joblib (0::nat), ''obs/plaqs_1.z'' \<mapsto> Joblib 1] ''obs/plaqs_1.pkl''
       = None
   \<and> save_data [''a.npy'' \<mapsto> Npy (0::nat), ''a_1.npy'' \<mapsto> Npy 1] 2 ''a.npy''
       = Inr [''a.npy'' \<mapsto> Npy 0, ''a_1.npy'' \<mapsto> Npy 2]"
proof -
  have a: "save_data [''obs/plaqs.pkl'' \<mapsto> Joblib (0::nat)] 1 ''obs/plaqs.pkl''
     = Inr [''obs/plaqs.pkl'' \<mapsto> Joblib 0, ''obs/plaqs_1.z'' \<mapsto> Joblib 1]"
    by (simp add: save_data_def rename_existing_def endswith_def change_extension_def
        os_path_join_def savez_def)
  have b: "insert_1_before_ext ''obs/plaqs.pkl'' = ''obs/plaqs_1.pkl''"
    by (simp add: insert_1_before_ext_def)
  have c: "[''obs/plaqs.pkl'' \<mapsto> Joblib (0::nat), ''obs/plaqs_1.z'' \<mapsto> Joblib 1]
      ''obs/plaqs_1.pkl'' = None"
    by simp
  have d: "save_data [''a.npy'' \<mapsto> Npy (0::nat), ''a_1.npy'' \<mapsto> Npy 1] 2 ''a.npy''
       = Inr [''a.npy'' \<mapsto> Npy 0, ''a_1.npy'' \<mapsto> Npy 2]"
    by (simp add: save_data_def rename_existing_def endswith_def)
  from a b c d show ?thesis by (intro conjI)
qed

end
